theory Spec2Isabelle
  imports Complex_Main
begin

section \<open>IP-Adapter loading, scaling and unloading\<close>

text \<open>
  A shallow embedding of \<^verbatim>\<open>IPAdapterMixin\<close>: the three methods
  \<^verbatim>\<open>load_ip_adapter\<close>, \<^verbatim>\<open>set_ip_adapter_scale\<close> and
  \<^verbatim>\<open>unload_ip_adapter\<close>. The mixin mutates the pipeline object \<^verbatim>\<open>self\<close>;
  the model passes the pipeline in and returns it, together with the exception when one
  is raised, so the state left behind by a failing call stays visible.
\<close>

subsection \<open>Errors and outcomes\<close>

text \<open>
  Each \<^verbatim>\<open>raise ValueError(...)\<close> of the file has its own tag. Failures of the
  functions the file calls but does not define (file download, file parsing, model
  construction) are \<open>External\<close>, so they are never confused with the file's own raises.
\<close>

datatype value_error =
    LengthPretrained      \<comment> \<open>line 124\<close>
  | LengthSubfolder       \<comment> \<open>line 127\<close>
  | MissingRequiredKeys   \<comment> \<open>line 191\<close>
  | EncoderFromStateDict  \<comment> \<open>line 212\<close>
  | ScaleLength nat nat   \<comment> \<open>line 246: expected, got\<close>

datatype ext_error = ExtError string

datatype error =
    ValueError value_error
  | NotImplementedError
  | AttributeError string
  | External ext_error

datatype 's outcome = Returns 's | Raises error 's

fun final_state :: "'s outcome \<Rightarrow> 's" where
  "final_state (Returns s) = s"
| "final_state (Raises e s) = s"

subsection \<open>Python strings and insertion-ordered dicts\<close>

definition startswith :: "string \<Rightarrow> string \<Rightarrow> bool" where
  "startswith s p = (take (length p) s = p)"

definition endswith :: "string \<Rightarrow> string \<Rightarrow> bool" where
  "endswith s p = (length p \<le> length s \<and> drop (length s - length p) s = p)"

text \<open>\<^verbatim>\<open>s.replace(old, new)\<close>: every non-overlapping occurrence, left to right.\<close>

function replace :: "string \<Rightarrow> string \<Rightarrow> string \<Rightarrow> string" where
  "replace s old new =
     (if old = [] then new @ concat (map (\<lambda>c. c # new) s)
      else if s = [] then []
      else if startswith s old then new @ replace (drop (length old) s) old new
      else hd s # replace (tl s) old new)"
  by pat_completeness auto
termination
  by (relation "measure (\<lambda>(s, old, new). length s)") auto

declare replace.simps [simp del]

text \<open>\<^verbatim>\<open>s.count("/")\<close> for the one-character pattern the file uses.\<close>

definition count_slash :: "string \<Rightarrow> nat" where
  "count_slash s = length (filter (\<lambda>c. c = CHR ''/'') s)"

text \<open>
  A Python dict keeps insertion order and \<^verbatim>\<open>list(d.keys())\<close> is compared as a
  list, so a dict is an association list with distinct keys. \<^verbatim>\<open>d[k] = v\<close>
  overwrites in place or appends.
\<close>

type_synonym ('k, 'v) dict = "('k \<times> 'v) list"

definition keys :: "('k, 'v) dict \<Rightarrow> 'k list" where
  "keys d = map fst d"

fun setitem :: "'k \<Rightarrow> 'v \<Rightarrow> ('k, 'v) dict \<Rightarrow> ('k, 'v) dict" where
  "setitem k v [] = [(k, v)]"
| "setitem k v ((k', v') # d) = (if k' = k then (k, v) # d else (k', v') # setitem k v d)"

subsection \<open>The pipeline object\<close>

text \<open>
  Tensors and loaded modules are opaque handles. An attention processor is one of the two
  IP-Adapter classes, which carry a \<^verbatim>\<open>scale\<close> list, or any other class. The
  scale entries are arbitrary Python values \<open>'v\<close>: the file stores them and never
  computes with them.
\<close>

datatype tensor = Tensor nat

datatype module = Module string

datatype 'v attn_processor =
    IPAdapterAttnProcessor "'v list"
  | IPAdapterAttnProcessor2_0 "'v list"
  | OtherProcessor string

record 'v unet =
  encoder_hid_proj :: "module option"
  attn_processors :: "(string, 'v attn_processor) dict"
  ip_adapter_weights :: "(string, (string, tensor) dict) dict list"

datatype 'v obj = PyNone | Component module | UNetObj "'v unet"

text \<open>
  A config entry is \<^verbatim>\<open>None\<close> or the pair \<^verbatim>\<open>(library, class_name)\<close> that
  \<^verbatim>\<open>register_modules\<close> records; \<^verbatim>\<open>[None, None]\<close> is \<open>CfgPair None None\<close>.
\<close>

datatype cfg_value = CfgNone | CfgPair "string option" "string option"

text \<open>
  The attributes of \<^verbatim>\<open>self\<close> are a map from names: \<^verbatim>\<open>hasattr\<close> asks whether
  the name is bound, and an attribute bound to \<^verbatim>\<open>None\<close> is bound. The config is a
  map as well; \<^verbatim>\<open>register_to_config(k=v)\<close> and \<^verbatim>\<open>self.config.k = v\<close> both
  bind \<open>k\<close>. Each attribute holds its own value: two attribute names are not aliases of
  one object.
\<close>

record 'v pipeline =
  attrs :: "string \<rightharpoonup> 'v obj"
  unet_name :: string
  config :: "string \<rightharpoonup> cfg_value"

definition hasattr :: "'v pipeline \<Rightarrow> string \<Rightarrow> bool" where
  "hasattr self name = (attrs self name \<noteq> None)"

text \<open>\<^verbatim>\<open>getattr(self, name, None)\<close>\<close>

definition getattr_default :: "'v pipeline \<Rightarrow> string \<Rightarrow> 'v obj" where
  "getattr_default self name = (case attrs self name of None \<Rightarrow> PyNone | Some v \<Rightarrow> v)"

definition setattr :: "string \<Rightarrow> 'v obj \<Rightarrow> 'v pipeline \<Rightarrow> 'v pipeline" where
  "setattr name v self = self\<lparr>attrs := (attrs self)(name \<mapsto> v)\<rparr>"

definition register_to_config :: "string \<Rightarrow> cfg_value \<Rightarrow> 'v pipeline \<Rightarrow> 'v pipeline" where
  "register_to_config name v self = self\<lparr>config := (config self)(name \<mapsto> v)\<rparr>"

subsection \<open>What the file calls and does not define\<close>

text \<open>
  The environment collects the functions and constants that \<^verbatim>\<open>ip_adapter.py\<close>
  imports: they are parameters of the model. Hub options (\<^verbatim>\<open>cache_dir\<close>,
  \<^verbatim>\<open>token\<close>, ...) are only handed on to \<^verbatim>\<open>_get_model_file\<close> and are part of
  that parameter. \<open>set_default_attn_processor\<close> is the UNet method of that name; it
  acts on the UNet's processors.
\<close>

record 'v env =
  LOW_CPU_MEM_USAGE_DEFAULT :: bool
  is_accelerate_available :: bool
  is_torch_version_ge_1_9_0 :: bool
  get_model_file :: "string \<Rightarrow> string \<Rightarrow> string \<Rightarrow> ext_error + string"
  safe_open :: "string \<Rightarrow> ext_error + (string, tensor) dict"
  torch_load :: "string \<Rightarrow> ext_error + (string, (string, tensor) dict) dict"
  path_as_posix :: "string list \<Rightarrow> string"
  clip_from_pretrained :: "string \<Rightarrow> string \<Rightarrow> bool \<Rightarrow> ext_error + module"
  fetch_class_library_tuple :: "module \<Rightarrow> cfg_value"
  clip_image_processor :: module
  load_ip_adapter_weights ::
    "'v unet \<Rightarrow> (string, (string, tensor) dict) dict list \<Rightarrow> bool \<Rightarrow> ext_error + 'v unet"
  set_default_attn_processor ::
    "(string, 'v attn_processor) dict \<Rightarrow> ext_error + (string, 'v attn_processor) dict"

text \<open>
  \<^verbatim>\<open>self.register_modules(name=module)\<close> records the module's library and class in
  the config and binds the attribute.
\<close>

definition register_modules :: "'v env \<Rightarrow> string \<Rightarrow> module \<Rightarrow> 'v pipeline \<Rightarrow> 'v pipeline" where
  "register_modules E name m self =
     setattr name (Component m) (register_to_config name (fetch_class_library_tuple E m) self)"

subsection \<open>\<^verbatim>\<open>unload_ip_adapter\<close>\<close>

definition unload_ip_adapter :: "'v env \<Rightarrow> 'v pipeline \<Rightarrow> 'v pipeline outcome" where
  "unload_ip_adapter E self =
     (let self1 =
            (if hasattr self ''image_encoder'' \<and> getattr_default self ''image_encoder'' \<noteq> PyNone
             then register_to_config ''image_encoder'' (CfgPair None None)
                    (setattr ''image_encoder'' PyNone self)
             else self);
          self2 =
            (if \<not> hasattr self1 ''safety_checker''
             then (if hasattr self1 ''feature_extractor''
                      \<and> getattr_default self1 ''feature_extractor'' \<noteq> PyNone
                   then register_to_config ''feature_extractor'' (CfgPair None None)
                          (setattr ''feature_extractor'' PyNone self1)
                   else self1)
             else self1)
      in case attrs self2 ''unet'' of
           None \<Rightarrow> Raises (AttributeError ''unet'') self2
         | Some PyNone \<Rightarrow> Raises (AttributeError ''encoder_hid_proj'') self2
         | Some (Component m) \<Rightarrow>
             Raises (AttributeError ''set_default_attn_processor'')
               (self2\<lparr>config := (config self2)(''encoder_hid_dim_type'' \<mapsto> CfgNone)\<rparr>)
         | Some (UNetObj u) \<Rightarrow>
             (let u1 = u\<lparr>encoder_hid_proj := None\<rparr>;
                  self3 = (setattr ''unet'' (UNetObj u1) self2)
                            \<lparr>config := (config self2)(''encoder_hid_dim_type'' \<mapsto> CfgNone)\<rparr>
              in case set_default_attn_processor E (attn_processors u1) of
                   Inl x \<Rightarrow> Raises (External x) self3
                 | Inr ps \<Rightarrow> Returns (setattr ''unet'' (UNetObj (u1\<lparr>attn_processors := ps\<rparr>)) self3)))"

subsection \<open>\<^verbatim>\<open>set_ip_adapter_scale\<close>\<close>

text \<open>
  \<^verbatim>\<open>getattr(self, self.unet_name) if not hasattr(self, "unet") else self.unet\<close>,
  with the name of the attribute that was read.
\<close>

definition get_unet :: "'v pipeline \<Rightarrow> error + (string \<times> 'v obj)" where
  "get_unet self =
     (if \<not> hasattr self ''unet''
      then (case attrs self (unet_name self) of
              None \<Rightarrow> Inl (AttributeError (unet_name self))
            | Some v \<Rightarrow> Inr (unet_name self, v))
      else (case attrs self ''unet'' of
              None \<Rightarrow> Inl (AttributeError ''unet'')
            | Some v \<Rightarrow> Inr (''unet'', v)))"

text \<open>The \<^verbatim>\<open>scale\<close> argument: \<^verbatim>\<open>isinstance(scale, list)\<close> or not.\<close>

datatype 'v scale_arg = Scalar 'v | ScaleList "'v list"

text \<open>
  \<^verbatim>\<open>isinstance(attn_processor, (IPAdapterAttnProcessor, IPAdapterAttnProcessor2_0))\<close>
  and the processor's \<^verbatim>\<open>scale\<close>.
\<close>

fun ip_scale :: "'v attn_processor \<Rightarrow> 'v list option" where
  "ip_scale (IPAdapterAttnProcessor sc) = Some sc"
| "ip_scale (IPAdapterAttnProcessor2_0 sc) = Some sc"
| "ip_scale (OtherProcessor c) = None"

fun assign_scale :: "'v list \<Rightarrow> 'v attn_processor \<Rightarrow> 'v attn_processor" where
  "assign_scale sc (IPAdapterAttnProcessor old) = IPAdapterAttnProcessor sc"
| "assign_scale sc (IPAdapterAttnProcessor2_0 old) = IPAdapterAttnProcessor2_0 sc"
| "assign_scale sc (OtherProcessor c) = OtherProcessor c"

text \<open>
  The loop over \<^verbatim>\<open>unet.attn_processors.values()\<close>. The local variable
  \<^verbatim>\<open>scale\<close> is rebound to a list at the first IP-Adapter processor and stays a list
  for the rest of the loop. The result is the exception, if any, and the processors as the
  loop left them.
\<close>

fun set_scale_loop ::
  "(string, 'v attn_processor) dict \<Rightarrow> 'v scale_arg
     \<Rightarrow> error option \<times> (string, 'v attn_processor) dict" where
  "set_scale_loop [] scale = (None, [])"
| "set_scale_loop ((name, p) # rest) scale =
     (case ip_scale p of
        None \<Rightarrow> (let (r, rest') = set_scale_loop rest scale in (r, (name, p) # rest'))
      | Some old \<Rightarrow>
          (let scale' = (case scale of Scalar s \<Rightarrow> replicate (length old) s | ScaleList l \<Rightarrow> l)
           in if length old \<noteq> length scale'
              then (Some (ValueError (ScaleLength (length old) (length scale'))), (name, p) # rest)
              else (let (r, rest') = set_scale_loop rest (ScaleList scale')
                    in (r, (name, assign_scale scale' p) # rest'))))"

definition set_ip_adapter_scale :: "'v pipeline \<Rightarrow> 'v scale_arg \<Rightarrow> 'v pipeline outcome" where
  "set_ip_adapter_scale self scale =
     (case get_unet self of
        Inl e \<Rightarrow> Raises e self
      | Inr (name, v) \<Rightarrow>
          (case v of
             UNetObj u \<Rightarrow>
               (let (r, ps) = set_scale_loop (attn_processors u) scale;
                    self' = setattr name (UNetObj (u\<lparr>attn_processors := ps\<rparr>)) self
                in case r of None \<Rightarrow> Returns self' | Some e \<Rightarrow> Raises e self')
           | _ \<Rightarrow> Raises (AttributeError ''attn_processors'') self))"

subsection \<open>\<^verbatim>\<open>load_ip_adapter\<close>\<close>

type_synonym state_dict = "(string, (string, tensor) dict) dict"

text \<open>An argument that is a list or a single value (\<^verbatim>\<open>isinstance(x, list)\<close>).\<close>

datatype 'a arg = Single 'a | Many "'a list"

text \<open>
  One entry of \<^verbatim>\<open>pretrained_model_name_or_path_or_dict\<close>: a state dict
  (\<^verbatim>\<open>isinstance(x, dict)\<close>) or a model id or path.
\<close>

datatype source = PathOrId string | StateDict state_dict

text \<open>Python's \<^verbatim>\<open>xs * n\<close> on lists.\<close>

definition list_times :: "'a list \<Rightarrow> nat \<Rightarrow> 'a list" where
  "list_times xs n = concat (replicate n xs)"

text \<open>Lines 110 to 121: the three arguments after wrapping and replication.\<close>

definition broadcast_args ::
  "source arg \<Rightarrow> string arg \<Rightarrow> string arg \<Rightarrow> source list \<times> string list \<times> string list" where
  "broadcast_args pretrained subfolder weight_name =
     (let weight_name1 = (case weight_name of Many ws \<Rightarrow> ws | Single w \<Rightarrow> [w]);
          pretrained1 = (case pretrained of Many ps \<Rightarrow> ps | Single p \<Rightarrow> [p]);
          pretrained2 = (if length pretrained1 = 1
                         then list_times pretrained1 (length weight_name1) else pretrained1);
          subfolder1 = (case subfolder of Many ss \<Rightarrow> ss | Single s \<Rightarrow> [s]);
          subfolder2 = (if length subfolder1 = 1
                        then list_times subfolder1 (length weight_name1) else subfolder1)
      in (pretrained2, subfolder2, weight_name1))"

text \<open>
  \<^verbatim>\<open>state_dict[outer][k] = v\<close>: the inner dict is updated in place, the outer dict
  keeps its keys.
\<close>

definition setitem_inner :: "string \<Rightarrow> string \<Rightarrow> tensor \<Rightarrow> state_dict \<Rightarrow> state_dict" where
  "setitem_inner outer k v sd =
     map (\<lambda>(name, inner). if name = outer then (name, setitem k v inner) else (name, inner)) sd"

text \<open>Lines 179 to 183: the loop over the keys of an opened safetensors file.\<close>

fun read_safetensors_keys :: "(string, tensor) dict \<Rightarrow> state_dict \<Rightarrow> state_dict" where
  "read_safetensors_keys [] sd = sd"
| "read_safetensors_keys ((key, t) # rest) sd =
     read_safetensors_keys rest
       (if startswith key ''image_proj.''
        then setitem_inner ''image_proj'' (replace key ''image_proj.'' []) t sd
        else if startswith key ''ip_adapter.''
        then setitem_inner ''ip_adapter'' (replace key ''ip_adapter.'' []) t sd
        else sd)"

definition read_safetensors :: "(string, tensor) dict \<Rightarrow> state_dict" where
  "read_safetensors f = read_safetensors_keys f [(''image_proj'', []), (''ip_adapter'', [])]"

text \<open>Lines 162 to 187: where the state dict of one adapter comes from.\<close>

definition fetch_state_dict :: "'v env \<Rightarrow> source \<Rightarrow> string \<Rightarrow> string \<Rightarrow> error + state_dict" where
  "fetch_state_dict E src weight_name subfolder =
     (case src of
        StateDict d \<Rightarrow> Inr d
      | PathOrId p \<Rightarrow>
          (case get_model_file E p weight_name subfolder of
             Inl x \<Rightarrow> Inl (External x)
           | Inr model_file \<Rightarrow>
               if endswith weight_name ''.safetensors''
               then (case safe_open E model_file of
                       Inl x \<Rightarrow> Inl (External x)
                     | Inr f \<Rightarrow> Inr (read_safetensors f))
               else (case torch_load E model_file of
                       Inl x \<Rightarrow> Inl (External x)
                     | Inr d \<Rightarrow> Inr d)))"

text \<open>Lines 196 to 219: the CLIP image encoder.\<close>

definition load_image_encoder ::
  "'v env \<Rightarrow> string option \<Rightarrow> bool \<Rightarrow> source \<Rightarrow> string \<Rightarrow> 'v pipeline \<Rightarrow> 'v pipeline outcome" where
  "load_image_encoder E image_encoder_folder low_cpu_mem_usage src subfolder self =
     (if hasattr self ''image_encoder'' \<and> getattr_default self ''image_encoder'' = PyNone
      then (case image_encoder_folder of
              Some folder \<Rightarrow>
                (case src of
                   PathOrId p \<Rightarrow>
                     (let image_encoder_subfolder =
                            (if count_slash folder = 0 then path_as_posix E [subfolder, folder]
                             else path_as_posix E [folder])
                      in case clip_from_pretrained E p image_encoder_subfolder low_cpu_mem_usage of
                           Inl x \<Rightarrow> Raises (External x) self
                         | Inr m \<Rightarrow> Returns (register_modules E ''image_encoder'' m self))
                 | StateDict d \<Rightarrow> Raises (ValueError EncoderFromStateDict) self)
            | None \<Rightarrow> Returns self)
      else Returns self)"

text \<open>Lines 222 to 224: the feature extractor.\<close>

definition create_feature_extractor :: "'v env \<Rightarrow> 'v pipeline \<Rightarrow> 'v pipeline" where
  "create_feature_extractor E self =
     (if hasattr self ''feature_extractor'' \<and> getattr_default self ''feature_extractor'' = PyNone
      then register_modules E ''feature_extractor'' (clip_image_processor E) self
      else self)"

text \<open>
  One iteration of the loop of lines 159 to 224, on the pipeline and the list
  \<^verbatim>\<open>state_dicts\<close>: the exception, if any, and both as the iteration left them.
\<close>

definition load_one ::
  "'v env \<Rightarrow> string option \<Rightarrow> bool \<Rightarrow> source \<times> string \<times> string \<Rightarrow> 'v pipeline
     \<Rightarrow> state_dict list \<Rightarrow> error option \<times> 'v pipeline \<times> state_dict list" where
  "load_one E image_encoder_folder low_cpu_mem_usage item self state_dicts =
     (case item of (src, weight_name, subfolder) \<Rightarrow>
        (case fetch_state_dict E src weight_name subfolder of
           Inl e \<Rightarrow> (Some e, self, state_dicts)
         | Inr state_dict \<Rightarrow>
             if keys state_dict \<noteq> [''image_proj'', ''ip_adapter'']
             then (Some (ValueError MissingRequiredKeys), self, state_dicts)
             else (case load_image_encoder E image_encoder_folder low_cpu_mem_usage
                          src subfolder self of
                     Raises e self' \<Rightarrow> (Some e, self', state_dicts @ [state_dict])
                   | Returns self' \<Rightarrow>
                       (None, create_feature_extractor E self', state_dicts @ [state_dict]))))"

fun load_loop ::
  "'v env \<Rightarrow> string option \<Rightarrow> bool \<Rightarrow> (source \<times> string \<times> string) list \<Rightarrow> 'v pipeline
     \<Rightarrow> state_dict list \<Rightarrow> error option \<times> 'v pipeline \<times> state_dict list" where
  "load_loop E image_encoder_folder low_cpu_mem_usage [] self state_dicts =
     (None, self, state_dicts)"
| "load_loop E image_encoder_folder low_cpu_mem_usage (item # items) self state_dicts =
     (case load_one E image_encoder_folder low_cpu_mem_usage item self state_dicts of
        (Some e, self', state_dicts') \<Rightarrow> (Some e, self', state_dicts')
      | (None, self', state_dicts') \<Rightarrow>
          load_loop E image_encoder_folder low_cpu_mem_usage items self' state_dicts')"

text \<open>
  Lines 137 to 146: \<open>low_cpu_kwarg\<close> is the keyword argument
  \<^verbatim>\<open>low_cpu_mem_usage\<close>, \<open>None\<close> when the caller does not pass it.
\<close>

definition resolve_low_cpu_mem_usage :: "'v env \<Rightarrow> bool option \<Rightarrow> bool" where
  "resolve_low_cpu_mem_usage E low_cpu_kwarg =
     (let low0 = (case low_cpu_kwarg of None \<Rightarrow> LOW_CPU_MEM_USAGE_DEFAULT E | Some b \<Rightarrow> b)
      in if low0 \<and> \<not> is_accelerate_available E then False else low0)"

text \<open>The whole method.\<close>

definition load_ip_adapter ::
  "'v env \<Rightarrow> 'v pipeline \<Rightarrow> source arg \<Rightarrow> string arg \<Rightarrow> string arg \<Rightarrow> string option
     \<Rightarrow> bool option \<Rightarrow> 'v pipeline outcome" where
  "load_ip_adapter E self pretrained subfolder weight_name image_encoder_folder low_cpu_kwarg =
     (case broadcast_args pretrained subfolder weight_name of
        (pretrained2, subfolder2, weight_name1) \<Rightarrow>
          if length weight_name1 \<noteq> length pretrained2
          then Raises (ValueError LengthPretrained) self
          else if length weight_name1 \<noteq> length subfolder2
          then Raises (ValueError LengthSubfolder) self
          else
            (let low_cpu_mem_usage = resolve_low_cpu_mem_usage E low_cpu_kwarg
             in if low_cpu_mem_usage \<and> \<not> is_torch_version_ge_1_9_0 E
                then Raises NotImplementedError self
                else
                  (case load_loop E image_encoder_folder low_cpu_mem_usage
                          (zip pretrained2 (zip weight_name1 subfolder2)) self [] of
                     (Some e, self', state_dicts) \<Rightarrow> Raises e self'
                   | (None, self', state_dicts) \<Rightarrow>
                       (case get_unet self' of
                          Inl e \<Rightarrow> Raises e self'
                        | Inr (name, v) \<Rightarrow>
                            (case v of
                               UNetObj u \<Rightarrow>
                                 (case load_ip_adapter_weights E u state_dicts low_cpu_mem_usage of
                                    Inl x \<Rightarrow> Raises (External x) self'
                                  | Inr u' \<Rightarrow> Returns (setattr name (UNetObj u') self'))
                             | _ \<Rightarrow> Raises (AttributeError ''_load_ip_adapter_weights'') self')))))"

subsection \<open>The broadcasting of the arguments, in the words of its description\<close>

text \<open>
  A second description of lines 110 to 121, to compare \<open>broadcast_args\<close> with: a value
  that is not a list is wrapped into a one-element list, and a one-element list of
  \<^verbatim>\<open>pretrained_model_name_or_path_or_dict\<close> or \<^verbatim>\<open>subfolder\<close> is replicated
  to the length \<open>n\<close> of \<^verbatim>\<open>weight_name\<close>.
\<close>

definition spec_wrap :: "'a arg \<Rightarrow> 'a list" where
  "spec_wrap a = (case a of Single x \<Rightarrow> [x] | Many l \<Rightarrow> l)"

definition spec_broadcast :: "nat \<Rightarrow> 'a arg \<Rightarrow> 'a list" where
  "spec_broadcast n a = (case spec_wrap a of [x] \<Rightarrow> replicate n x | l \<Rightarrow> l)"

subsection \<open>A concrete pipeline and environment\<close>

text \<open>
  A pipeline with a UNet that carries IP-Adapter processors, an image encoder, a feature
  extractor and a \<^verbatim>\<open>safety_checker\<close> attribute bound to \<^verbatim>\<open>None\<close>; and an
  environment in which every download succeeds. The theorems below are instantiated on
  them.
\<close>

definition example_unet :: "real unet" where
  "example_unet =
     \<lparr>encoder_hid_proj = Some (Module ''ImageProjection''),
      attn_processors =
        [(''down.attn1'', OtherProcessor ''AttnProcessor''),
         (''down.attn2'', IPAdapterAttnProcessor [1]),
         (''mid.attn1'', OtherProcessor ''AttnProcessor''),
         (''mid.attn2'', IPAdapterAttnProcessor2_0 [1]),
         (''up.attn2'', IPAdapterAttnProcessor [1, 1]),
         (''up.attn3'', IPAdapterAttnProcessor [1])],
      ip_adapter_weights = []\<rparr>"

definition example_pipeline :: "real pipeline" where
  "example_pipeline =
     \<lparr>attrs = [''unet'' \<mapsto> UNetObj example_unet,
               ''image_encoder'' \<mapsto> Component (Module ''CLIPVisionModelWithProjection''),
               ''feature_extractor'' \<mapsto> Component (Module ''CLIPImageProcessor''),
               ''safety_checker'' \<mapsto> PyNone],
      unet_name = ''unet'',
      config = Map.empty\<rparr>"

definition example_env :: "real env" where
  "example_env =
     \<lparr>LOW_CPU_MEM_USAGE_DEFAULT = True,
      is_accelerate_available = True,
      is_torch_version_ge_1_9_0 = True,
      get_model_file = (\<lambda>repo name sub. Inr (sub @ ''/'' @ name)),
      safe_open = (\<lambda>file. Inr [(''image_proj.proj.weight'', Tensor 0),
                                (''ip_adapter.1.to_k_ip.weight'', Tensor 1),
                                (''extra.bias'', Tensor 2)]),
      torch_load = (\<lambda>file. Inr [(''ip_adapter'', []), (''image_proj'', [])]),
      path_as_posix = (\<lambda>parts. concat (map (\<lambda>p. p @ ''/'') parts)),
      clip_from_pretrained = (\<lambda>repo sub low. Inr (Module ''CLIPVisionModelWithProjection'')),
      fetch_class_library_tuple = (\<lambda>m. CfgPair (Some ''transformers'') (case m of Module c \<Rightarrow> Some c)),
      clip_image_processor = Module ''CLIPImageProcessor'',
      load_ip_adapter_weights = (\<lambda>u sds low. Inr (u\<lparr>ip_adapter_weights := sds\<rparr>)),
      set_default_attn_processor =
        (\<lambda>ps. Inr (map (\<lambda>(n, p). (n, OtherProcessor ''AttnProcessor'')) ps))\<rparr>"

section \<open>Properties\<close>

subsection \<open>Auxiliary facts about the loops\<close>

lemma set_scale_loop_skip:
  "\<forall>(n, p) \<in> set pre. ip_scale p = None \<Longrightarrow>
   set_scale_loop (pre @ rest) sc = (fst (set_scale_loop rest sc), pre @ snd (set_scale_loop rest sc))"
  by (induction pre) (auto simp: case_prod_beta)

lemma assign_scale_other: "ip_scale p = None \<Longrightarrow> assign_scale l p = p"
  by (cases p) auto

lemma set_scale_loop_agree:
  "\<forall>(n, p) \<in> set mid. \<forall>old. ip_scale p = Some old \<longrightarrow> length old = length l \<Longrightarrow>
   set_scale_loop (mid @ rest) (ScaleList l) =
     (fst (set_scale_loop rest (ScaleList l)),
      map (\<lambda>(n, p). (n, assign_scale l p)) mid @ snd (set_scale_loop rest (ScaleList l)))"
proof (induction mid)
  case Nil
  then show ?case by simp
next
  case (Cons a mid)
  obtain n p where a: "a = (n, p)" by (cases a)
  show ?case
  proof (cases "ip_scale p")
    case None
    with Cons a show ?thesis by (simp add: case_prod_beta assign_scale_other)
  next
    case (Some old)
    with Cons a have "length old = length l" by auto
    with Cons a Some show ?thesis by (simp add: case_prod_beta)
  qed
qed

lemma set_scale_loop_mismatch:
  assumes "ip_scale p2 = Some old2" "length old2 \<noteq> length l"
  shows "set_scale_loop ((n2, p2) # post) (ScaleList l) =
           (Some (ValueError (ScaleLength (length old2) (length l))), (n2, p2) # post)"
  using assms by simp

lemma set_scale_loop_first:
  assumes "ip_scale p1 = Some old1"
  shows "set_scale_loop ((n1, p1) # rest) (Scalar s) =
           (fst (set_scale_loop rest (ScaleList (replicate (length old1) s))),
            (n1, assign_scale (replicate (length old1) s) p1)
              # snd (set_scale_loop rest (ScaleList (replicate (length old1) s))))"
  using assms by (simp add: case_prod_beta Let_def)

lemma set_scale_loop_raises:
  assumes pre: "\<forall>(n, p) \<in> set pre. ip_scale p = None"
      and p1: "ip_scale p1 = Some old1"
      and mid: "\<forall>(n, p) \<in> set mid. \<forall>old. ip_scale p = Some old \<longrightarrow> length old = length old1"
      and p2: "ip_scale p2 = Some old2"
      and ne: "length old2 \<noteq> length old1"
  shows "set_scale_loop (pre @ (n1, p1) # mid @ (n2, p2) # post) (Scalar s) =
           (Some (ValueError (ScaleLength (length old2) (length old1))),
            pre @ (n1, assign_scale (replicate (length old1) s) p1)
              # map (\<lambda>(n, p). (n, assign_scale (replicate (length old1) s) p)) mid
              @ (n2, p2) # post)"
proof -
  let ?l = "replicate (length old1) s"
  have m: "\<forall>(n, p) \<in> set mid. \<forall>old. ip_scale p = Some old \<longrightarrow> length old = length ?l"
    using mid by simp
  have e: "set_scale_loop ((n2, p2) # post) (ScaleList ?l) =
           (Some (ValueError (ScaleLength (length old2) (length ?l))), (n2, p2) # post)"
    using p2 ne by (intro set_scale_loop_mismatch) simp_all
  show ?thesis
    by (simp only: set_scale_loop_skip[OF pre] set_scale_loop_first[OF p1]
          set_scale_loop_agree[OF m] e fst_conv snd_conv length_replicate)
qed

lemma keys_setitem_inner: "keys (setitem_inner outer k v sd) = keys sd"
  by (induction sd) (auto simp: keys_def setitem_inner_def)

lemma keys_read_safetensors_keys: "keys (read_safetensors_keys f sd) = keys sd"
  by (induction f sd rule: read_safetensors_keys.induct) (simp_all add: keys_setitem_inner)

lemma keys_read_safetensors: "keys (read_safetensors f) = [''image_proj'', ''ip_adapter'']"
  by (simp add: read_safetensors_def keys_read_safetensors_keys) (simp add: keys_def)

lemma read_safetensors_keys_filter:
  "read_safetensors_keys
     (filter (\<lambda>(k, t). startswith k ''image_proj.'' \<or> startswith k ''ip_adapter.'') f) sd =
   read_safetensors_keys f sd"
  by (induction f sd rule: read_safetensors_keys.induct) auto

lemma load_loop_append:
  "load_loop E f low (pre @ rest) self sds =
     (case load_loop E f low pre self sds of
        (Some e, s, d) \<Rightarrow> (Some e, s, d)
      | (None, s, d) \<Rightarrow> load_loop E f low rest s d)"
  by (induction pre arbitrary: self sds) (auto split: prod.splits option.splits)

lemma load_one_bad_keys:
  "fetch_state_dict E src wn sf = Inr sd \<Longrightarrow> keys sd \<noteq> [''image_proj'', ''ip_adapter''] \<Longrightarrow>
   load_one E f low (src, wn, sf) self sds = (Some (ValueError MissingRequiredKeys), self, sds)"
  by (simp add: load_one_def)

lemma load_image_encoder_not_missing:
  "load_image_encoder E f low src sf self \<noteq> Raises (ValueError MissingRequiredKeys) s"
  by (auto simp: load_image_encoder_def Let_def split: option.splits source.splits sum.splits)

lemma load_one_good_keys:
  "fetch_state_dict E src wn sf = Inr sd \<Longrightarrow> keys sd = [''image_proj'', ''ip_adapter''] \<Longrightarrow>
   snd (snd (load_one E f low (src, wn, sf) self sds)) = sds @ [sd]
   \<and> fst (load_one E f low (src, wn, sf) self sds) \<noteq> Some (ValueError MissingRequiredKeys)"
  using load_image_encoder_not_missing[of E f low src sf self]
  by (auto simp: load_one_def split: outcome.splits)

lemma load_one_returns:
  assumes "load_one E f low (src, wn, sf) self sds = (None, self', sds')"
  shows "\<exists>sd. fetch_state_dict E src wn sf = Inr sd
              \<and> keys sd = [''image_proj'', ''ip_adapter''] \<and> sds' = sds @ [sd]"
  using assms
  by (auto simp: load_one_def split: sum.splits if_splits outcome.splits)

lemma load_loop_returns:
  "load_loop E f low items self sds = (None, self', sds') \<Longrightarrow>
   \<exists>new. sds' = sds @ new
       \<and> list_all2 (\<lambda>(src, wn, sf) sd. fetch_state_dict E src wn sf = Inr sd
                        \<and> keys sd = [''image_proj'', ''ip_adapter'']) items new"
proof (induction items arbitrary: self sds)
  case Nil
  then show ?case by simp
next
  case (Cons item items)
  obtain src wn sf where item: "item = (src, wn, sf)" by (cases item) auto
  obtain r s1 d1 where one: "load_one E f low (src, wn, sf) self sds = (r, s1, d1)"
    by (cases "load_one E f low (src, wn, sf) self sds") auto
  from Cons.prems item one have r: "r = None"
    by (cases r) auto
  from Cons.prems item one r have rest: "load_loop E f low items s1 d1 = (None, self', sds')"
    by simp
  from load_one_returns[OF one[unfolded r]] obtain sd where
    sd: "fetch_state_dict E src wn sf = Inr sd" "keys sd = [''image_proj'', ''ip_adapter'']"
        "d1 = sds @ [sd]"
    by blast
  from Cons.IH[OF rest] obtain new where
    new: "sds' = d1 @ new"
         "list_all2 (\<lambda>(src, wn, sf) sd. fetch_state_dict E src wn sf = Inr sd
                        \<and> keys sd = [''image_proj'', ''ip_adapter'']) items new"
    by blast
  show ?case
    by (rule exI[of _ "sd # new"]) (simp add: item sd new)
qed

lemma load_ip_adapter_returns:
  assumes ret: "load_ip_adapter E self pretrained subfolder weight_name folder low_cpu_kwarg
                  = Returns self''"
      and bc: "broadcast_args pretrained subfolder weight_name = (ps, ss, ws)"
  shows "\<exists>self' sds name u u'.
           load_loop E folder (resolve_low_cpu_mem_usage E low_cpu_kwarg)
             (zip ps (zip ws ss)) self [] = (None, self', sds)
         \<and> get_unet self' = Inr (name, UNetObj u)
         \<and> load_ip_adapter_weights E u sds (resolve_low_cpu_mem_usage E low_cpu_kwarg) = Inr u'
         \<and> self'' = setattr name (UNetObj u') self'"
  using ret
  by (auto simp: load_ip_adapter_def bc Let_def
           split: if_splits prod.splits option.splits sum.splits obj.splits)

lemma load_one_state_dict_without_encoder:
  assumes "keys d = [''image_proj'', ''ip_adapter'']"
      and "hasattr self ''image_encoder''" "getattr_default self ''image_encoder'' = PyNone"
  shows "load_one E (Some folder) low (StateDict d, wn, sf) self sds =
           (Some (ValueError EncoderFromStateDict), self, sds @ [d])"
  using assms by (simp add: load_one_def fetch_state_dict_def load_image_encoder_def)

lemma broadcast_args_spec:
  "broadcast_args pretrained subfolder weight_name =
     (spec_broadcast (length (spec_wrap weight_name)) pretrained,
      spec_broadcast (length (spec_wrap weight_name)) subfolder,
      spec_wrap weight_name)"
proof -
  have t: "\<And>xs::'b list. \<And>n. length xs = 1 \<Longrightarrow> list_times xs n = replicate n (hd xs)"
  proof -
    fix xs :: "'b list" and n assume "length xs = 1"
    then obtain x where "xs = [x]" by (cases xs) auto
    then show "list_times xs n = replicate n (hd xs)"
      by (induction n) (simp_all add: list_times_def)
  qed
  have b: "\<And>(a::'b arg) n. spec_broadcast n a =
            (if length (spec_wrap a) = 1 then list_times (spec_wrap a) n else spec_wrap a)"
  proof -
    fix a :: "'b arg" and n
    show "spec_broadcast n a =
            (if length (spec_wrap a) = 1 then list_times (spec_wrap a) n else spec_wrap a)"
      by (cases "spec_wrap a" rule: list.exhaust; cases "tl (spec_wrap a)")
         (auto simp: spec_broadcast_def t split: list.splits)
  qed
  show ?thesis
    unfolding b by (cases pretrained; cases subfolder; cases weight_name)
      (simp_all add: broadcast_args_def spec_wrap_def Let_def)
qed

subsection \<open>\<^verbatim>\<open>unload_ip_adapter\<close>\<close>

text \<open>
  Claim C5. Whenever \<^verbatim>\<open>unload_ip_adapter\<close> returns: the pipeline's
  \<^verbatim>\<open>image_encoder\<close> is \<^verbatim>\<open>None\<close> (read as the method reads it, with
  \<^verbatim>\<open>getattr(self, "image_encoder", None)\<close>; where the attribute was bound before
  the call it is bound to \<^verbatim>\<open>None\<close> after it), the config's
  \<^verbatim>\<open>encoder_hid_dim_type\<close> is \<^verbatim>\<open>None\<close>, the UNet's
  \<^verbatim>\<open>encoder_hid_proj\<close> is \<^verbatim>\<open>None\<close>, and the UNet's attention processors
  are the ones \<^verbatim>\<open>set_default_attn_processor\<close> installs.
\<close>

theorem unload_ip_adapter_postconditions:
  assumes "unload_ip_adapter E self = Returns self'"
  shows "getattr_default self' ''image_encoder'' = PyNone \<and>
         (hasattr self ''image_encoder'' \<longrightarrow> attrs self' ''image_encoder'' = Some PyNone) \<and>
         config self' ''encoder_hid_dim_type'' = Some CfgNone \<and>
         (\<exists>u u'. attrs self ''unet'' = Some (UNetObj u) \<and> attrs self' ''unet'' = Some (UNetObj u')
            \<and> encoder_hid_proj u' = None
            \<and> set_default_attn_processor E (attn_processors u) = Inr (attn_processors u'))"
  using assms
  by (auto simp: unload_ip_adapter_def Let_def hasattr_def getattr_default_def setattr_def
        register_to_config_def split: option.splits obj.splits sum.splits if_splits)

theorem unload_ip_adapter_postconditions_witness:
  "unload_ip_adapter example_env example_pipeline =
     Returns (final_state (unload_ip_adapter example_env example_pipeline))
   \<and> hasattr example_pipeline ''image_encoder''
   \<and> attrs (final_state (unload_ip_adapter example_env example_pipeline)) ''image_encoder''
       = Some PyNone
   \<and> getattr_default (final_state (unload_ip_adapter example_env example_pipeline))
       ''image_encoder'' = PyNone
   \<and> config (final_state (unload_ip_adapter example_env example_pipeline))
       ''encoder_hid_dim_type'' = Some CfgNone
   \<and> (\<exists>u'. attrs (final_state (unload_ip_adapter example_env example_pipeline)) ''unet''
              = Some (UNetObj u')
            \<and> encoder_hid_proj u' = None
            \<and> set_default_attn_processor example_env (attn_processors example_unet)
                = Inr (attn_processors u'))"
proof -
  have r: "unload_ip_adapter example_env example_pipeline =
             Returns (final_state (unload_ip_adapter example_env example_pipeline))"
    by (simp add: unload_ip_adapter_def example_env_def example_pipeline_def hasattr_def
          getattr_default_def setattr_def register_to_config_def Let_def)
  have h: "hasattr example_pipeline ''image_encoder''"
    by (simp add: hasattr_def example_pipeline_def)
  have u: "attrs example_pipeline ''unet'' = Some (UNetObj example_unet)"
    by (simp add: example_pipeline_def)
  from unload_ip_adapter_postconditions [OF r] h u r show ?thesis by auto
qed

text \<open>
  Claim C6. A pipeline that has a \<^verbatim>\<open>safety_checker\<close> attribute, whatever its
  value, keeps its \<^verbatim>\<open>feature_extractor\<close> attribute and config entry through
  \<^verbatim>\<open>unload_ip_adapter\<close>, whether the call returns or raises: the feature extractor
  is reset only on a pipeline without that attribute. The example pipeline has
  \<^verbatim>\<open>safety_checker = None\<close>.
\<close>

theorem unload_ip_adapter_keeps_feature_extractor:
  assumes "hasattr self ''safety_checker''"
  shows "attrs (final_state (unload_ip_adapter E self)) ''feature_extractor'' = attrs self ''feature_extractor''
       \<and> config (final_state (unload_ip_adapter E self)) ''feature_extractor'' = config self ''feature_extractor''"
  using assms
  by (auto simp: unload_ip_adapter_def Let_def hasattr_def getattr_default_def setattr_def
        register_to_config_def split: option.splits obj.splits sum.splits if_splits)

theorem unload_ip_adapter_keeps_feature_extractor_witness:
  "hasattr example_pipeline ''safety_checker''
   \<and> attrs example_pipeline ''safety_checker'' = Some PyNone
   \<and> attrs (final_state (unload_ip_adapter example_env example_pipeline)) ''feature_extractor''
       = Some (Component (Module ''CLIPImageProcessor''))
   \<and> config (final_state (unload_ip_adapter example_env example_pipeline)) ''feature_extractor''
       = None"
proof -
  have h: "hasattr example_pipeline ''safety_checker''"
    by (simp add: hasattr_def example_pipeline_def)
  from unload_ip_adapter_keeps_feature_extractor [OF h, of example_env] h show ?thesis
    by (simp add: example_pipeline_def)
qed

subsection \<open>\<^verbatim>\<open>load_ip_adapter\<close>\<close>

text \<open>
  Claim C7. Take a call whose arguments pass the length checks and the
  \<^verbatim>\<open>low_cpu_mem_usage\<close> check, and an adapter of the call that the loop reaches
  (the iterations before it raised nothing) and whose state dict was obtained, from a file
  or from the argument itself. If the list of the state dict's keys is not exactly
  \<^verbatim>\<open>["image_proj", "ip_adapter"]\<close>, the call raises the \<^verbatim>\<open>ValueError\<close> of
  line 191, with the pipeline as the earlier iterations left it. Otherwise the iteration
  appends the state dict to \<^verbatim>\<open>state_dicts\<close> and does not raise that error; and
  whenever the call returns, \<^verbatim>\<open>state_dicts\<close> is the list handed to
  \<^verbatim>\<open>_load_ip_adapter_weights\<close>: it holds this state dict at the adapter's position,
  it is made of the state dicts obtained for the adapters of the call, in order, each with
  the required keys, and the UNet that the loader gives back is the one the pipeline ends
  with. Passing the key check does not make the call return: the steps after line 193 can
  still raise, as \<open>load_one_state_dict_without_encoder\<close> shows for line 212.
\<close>

theorem load_ip_adapter_required_keys:
  assumes bc: "broadcast_args pretrained subfolder weight_name = (ps, ss, ws)"
      and len: "length ws = length ps" "length ws = length ss"
      and low: "low = resolve_low_cpu_mem_usage E low_cpu_kwarg"
               "\<not> (low \<and> \<not> is_torch_version_ge_1_9_0 E)"
      and items: "zip ps (zip ws ss) = pre @ (src, wn, sf) # post"
      and reached: "load_loop E folder low pre self [] = (None, self1, sds1)"
      and fetched: "fetch_state_dict E src wn sf = Inr sd"
  shows "(keys sd \<noteq> [''image_proj'', ''ip_adapter''] \<longrightarrow>
            load_ip_adapter E self pretrained subfolder weight_name folder low_cpu_kwarg =
              Raises (ValueError MissingRequiredKeys) self1)
       \<and> (keys sd = [''image_proj'', ''ip_adapter''] \<longrightarrow>
            snd (snd (load_one E folder low (src, wn, sf) self1 sds1)) = sds1 @ [sd]
            \<and> fst (load_one E folder low (src, wn, sf) self1 sds1)
                \<noteq> Some (ValueError MissingRequiredKeys)
            \<and> (\<forall>self''.
                  load_ip_adapter E self pretrained subfolder weight_name folder low_cpu_kwarg
                    = Returns self'' \<longrightarrow>
                  (\<exists>self' name u u' rest.
                      load_loop E folder low (zip ps (zip ws ss)) self []
                        = (None, self', sds1 @ sd # rest)
                    \<and> list_all2 (\<lambda>(src, wn, sf) d. fetch_state_dict E src wn sf = Inr d
                                     \<and> keys d = [''image_proj'', ''ip_adapter''])
                        (zip ps (zip ws ss)) (sds1 @ sd # rest)
                    \<and> get_unet self' = Inr (name, UNetObj u)
                    \<and> load_ip_adapter_weights E u (sds1 @ sd # rest) low = Inr u'
                    \<and> self'' = setattr name (UNetObj u') self')))"
proof (intro conjI impI allI)
  assume bad: "keys sd \<noteq> [''image_proj'', ''ip_adapter'']"
  have "load_loop E folder low (pre @ (src, wn, sf) # post) self [] =
          (Some (ValueError MissingRequiredKeys), self1, sds1)"
    by (simp add: load_loop_append reached load_one_bad_keys[OF fetched bad])
  then show "load_ip_adapter E self pretrained subfolder weight_name folder low_cpu_kwarg =
               Raises (ValueError MissingRequiredKeys) self1"
    using len low by (simp add: load_ip_adapter_def bc items[symmetric] Let_def)
next
  assume good: "keys sd = [''image_proj'', ''ip_adapter'']"
  from load_one_good_keys[OF fetched good]
  show "snd (snd (load_one E folder low (src, wn, sf) self1 sds1)) = sds1 @ [sd]"
   and "fst (load_one E folder low (src, wn, sf) self1 sds1) \<noteq> Some (ValueError MissingRequiredKeys)"
    by simp_all
next
  fix self''
  assume good: "keys sd = [''image_proj'', ''ip_adapter'']"
     and ret: "load_ip_adapter E self pretrained subfolder weight_name folder low_cpu_kwarg
                 = Returns self''"
  from load_ip_adapter_returns[OF ret bc] low(1) obtain self' sds name u u' where
    loop: "load_loop E folder low (zip ps (zip ws ss)) self [] = (None, self', sds)"
    and unet: "get_unet self' = Inr (name, UNetObj u)"
    and loaded: "load_ip_adapter_weights E u sds low = Inr u'"
    and final: "self'' = setattr name (UNetObj u') self'"
    by auto
  from loop items reached
  have tail: "load_loop E folder low ((src, wn, sf) # post) self1 sds1 = (None, self', sds)"
    by (simp add: load_loop_append)
  obtain r s2 d2 where one: "load_one E folder low (src, wn, sf) self1 sds1 = (r, s2, d2)"
    by (cases "load_one E folder low (src, wn, sf) self1 sds1") auto
  from tail one have r: "r = None" by (cases r) auto
  from load_one_good_keys[OF fetched good, of folder low self1 sds1] one
  have d2: "d2 = sds1 @ [sd]" by simp
  from tail one r have "load_loop E folder low post s2 d2 = (None, self', sds)" by simp
  from load_loop_returns[OF this] d2 obtain rest where rest: "sds = sds1 @ sd # rest"
    by auto
  from load_loop_returns[OF loop]
  have all: "list_all2 (\<lambda>(src, wn, sf) d. fetch_state_dict E src wn sf = Inr d
                           \<and> keys d = [''image_proj'', ''ip_adapter''])
               (zip ps (zip ws ss)) sds"
    by auto
  show "\<exists>self' name u u' rest.
          load_loop E folder low (zip ps (zip ws ss)) self [] = (None, self', sds1 @ sd # rest)
        \<and> list_all2 (\<lambda>(src, wn, sf) d. fetch_state_dict E src wn sf = Inr d
                         \<and> keys d = [''image_proj'', ''ip_adapter''])
            (zip ps (zip ws ss)) (sds1 @ sd # rest)
        \<and> get_unet self' = Inr (name, UNetObj u)
        \<and> load_ip_adapter_weights E u (sds1 @ sd # rest) low = Inr u'
        \<and> self'' = setattr name (UNetObj u') self'"
    using loop all unet loaded final unfolding rest by blast
qed

theorem load_ip_adapter_required_keys_witness:
  "keys ([(''ip_adapter'', []), (''image_proj'', [])] :: state_dict)
       \<noteq> [''image_proj'', ''ip_adapter'']
   \<and> fetch_state_dict example_env (PathOrId ''h94/IP-Adapter'') ''ip-adapter_sd15.bin'' ''models''
       = Inr [(''ip_adapter'', []), (''image_proj'', [])]
   \<and> load_ip_adapter example_env example_pipeline (Single (PathOrId ''h94/IP-Adapter''))
        (Single ''models'') (Single ''ip-adapter_sd15.bin'') (Some ''image_encoder'') None
       = Raises (ValueError MissingRequiredKeys) example_pipeline
   \<and> keys [(''image_proj'', [(''proj.weight'', Tensor 0)]), (''ip_adapter'', [])]
       = [''image_proj'', ''ip_adapter'']
   \<and> snd (snd (load_one example_env (Some ''image_encoder'') True
        (StateDict [(''image_proj'', [(''proj.weight'', Tensor 0)]), (''ip_adapter'', [])],
         ''ip-adapter_sd15.bin'', ''models'') example_pipeline []))
       = [[(''image_proj'', [(''proj.weight'', Tensor 0)]), (''ip_adapter'', [])]]
   \<and> load_ip_adapter example_env example_pipeline
        (Single (StateDict [(''image_proj'', [(''proj.weight'', Tensor 0)]), (''ip_adapter'', [])]))
        (Single ''models'') (Single ''ip-adapter_sd15.bin'') (Some ''image_encoder'') None
       = Returns (setattr ''unet''
           (UNetObj (example_unet\<lparr>ip_adapter_weights :=
              [[(''image_proj'', [(''proj.weight'', Tensor 0)]), (''ip_adapter'', [])]]\<rparr>))
           example_pipeline)
   \<and> (\<exists>self' name u u' rest.
         get_unet self' = Inr (name, UNetObj u)
       \<and> load_ip_adapter_weights example_env u
           ([(''image_proj'', [(''proj.weight'', Tensor 0)]), (''ip_adapter'', [])] # rest) True
           = Inr u'
       \<and> setattr ''unet''
           (UNetObj (example_unet\<lparr>ip_adapter_weights :=
              [[(''image_proj'', [(''proj.weight'', Tensor 0)]), (''ip_adapter'', [])]]\<rparr>))
           example_pipeline
           = setattr name (UNetObj u') self')"
proof -
  let ?bad = "[(''ip_adapter'', []), (''image_proj'', [])] :: state_dict"
  let ?good = "[(''image_proj'', [(''proj.weight'', Tensor 0)]), (''ip_adapter'', [])] :: state_dict"
  let ?src1 = "PathOrId ''h94/IP-Adapter''"
  let ?src2 = "StateDict ?good"
  have bc1: "broadcast_args (Single ?src1) (Single ''models'') (Single ''ip-adapter_sd15.bin'')
               = ([?src1], [''models''], [''ip-adapter_sd15.bin''])"
    by (simp add: broadcast_args_def list_times_def)
  have bc2: "broadcast_args (Single ?src2) (Single ''models'') (Single ''ip-adapter_sd15.bin'')
               = ([?src2], [''models''], [''ip-adapter_sd15.bin''])"
    by (simp add: broadcast_args_def list_times_def)
  have low: "True = resolve_low_cpu_mem_usage example_env None"
    by (simp add: resolve_low_cpu_mem_usage_def example_env_def)
  have tv: "\<not> (True \<and> \<not> is_torch_version_ge_1_9_0 example_env)"
    by (simp add: example_env_def)
  have z1: "zip [?src1] (zip [''ip-adapter_sd15.bin''] [''models''])
              = [] @ (?src1, ''ip-adapter_sd15.bin'', ''models'') # []"
    by simp
  have z2: "zip [?src2] (zip [''ip-adapter_sd15.bin''] [''models''])
              = [] @ (?src2, ''ip-adapter_sd15.bin'', ''models'') # []"
    by simp
  have re: "load_loop example_env (Some ''image_encoder'') True [] example_pipeline []
              = (None, example_pipeline, [])"
    by simp
  have f1: "fetch_state_dict example_env ?src1 ''ip-adapter_sd15.bin'' ''models'' = Inr ?bad"
    by (simp add: fetch_state_dict_def example_env_def endswith_def)
  have f2: "fetch_state_dict example_env ?src2 ''ip-adapter_sd15.bin'' ''models'' = Inr ?good"
    by (simp add: fetch_state_dict_def)
  have k1: "keys ?bad \<noteq> [''image_proj'', ''ip_adapter'']"
    by (simp add: keys_def)
  have k2: "keys ?good = [''image_proj'', ''ip_adapter'']"
    by (simp add: keys_def)
  have one: "load_one example_env (Some ''image_encoder'') True
               (?src2, ''ip-adapter_sd15.bin'', ''models'') example_pipeline []
             = (None, example_pipeline, [?good])"
    by (simp add: load_one_def f2 k2 load_image_encoder_def create_feature_extractor_def
          hasattr_def getattr_default_def example_pipeline_def)
  have g: "get_unet example_pipeline = Inr (''unet'', UNetObj example_unet)"
    by (simp add: get_unet_def hasattr_def example_pipeline_def)
  have ret: "load_ip_adapter example_env example_pipeline (Single ?src2) (Single ''models'')
               (Single ''ip-adapter_sd15.bin'') (Some ''image_encoder'') None
             = Returns (setattr ''unet''
                 (UNetObj (example_unet\<lparr>ip_adapter_weights := [?good]\<rparr>)) example_pipeline)"
    using tv by (simp add: load_ip_adapter_def bc2 low[symmetric] one g) (simp add: example_env_def)
  from load_ip_adapter_required_keys [where folder = "Some ''image_encoder''", OF bc1 _ _ low tv z1 re f1]
       load_ip_adapter_required_keys [where folder = "Some ''image_encoder''", OF bc2 _ _ low tv z2 re f2]
       k1 k2 f1 ret
  show ?thesis by (simp del: list_all2_Cons list.rel_inject) blast
qed

text \<open>
  Claim C8. \<open>broadcast_args\<close> wraps a non-list \<^verbatim>\<open>weight_name\<close>, and wraps and
  replicates \<^verbatim>\<open>pretrained_model_name_or_path_or_dict\<close> and
  \<^verbatim>\<open>subfolder\<close> to the length of \<^verbatim>\<open>weight_name\<close>, as \<open>spec_wrap\<close> and
  \<open>spec_broadcast\<close> describe; and whenever one of the two then has a length other than
  that of \<^verbatim>\<open>weight_name\<close>, \<^verbatim>\<open>load_ip_adapter\<close> raises \<^verbatim>\<open>ValueError\<close>
  and leaves the pipeline as it was.
\<close>

theorem load_ip_adapter_broadcasting:
  "broadcast_args pretrained subfolder weight_name =
     (spec_broadcast (length (spec_wrap weight_name)) pretrained,
      spec_broadcast (length (spec_wrap weight_name)) subfolder,
      spec_wrap weight_name)
   \<and> (length (spec_broadcast (length (spec_wrap weight_name)) pretrained)
          \<noteq> length (spec_wrap weight_name)
        \<or> length (spec_broadcast (length (spec_wrap weight_name)) subfolder)
          \<noteq> length (spec_wrap weight_name) \<longrightarrow>
      load_ip_adapter E self pretrained subfolder weight_name folder low_cpu_kwarg =
        Raises (ValueError
                  (if length (spec_broadcast (length (spec_wrap weight_name)) pretrained)
                        \<noteq> length (spec_wrap weight_name)
                   then LengthPretrained else LengthSubfolder)) self)"
  by (auto simp: load_ip_adapter_def broadcast_args_spec)

theorem load_ip_adapter_broadcasting_witness:
  "spec_wrap (Many [''a.bin'', ''b.bin'', ''c.bin'']) = [''a.bin'', ''b.bin'', ''c.bin'']
   \<and> spec_broadcast 3 (Single ''models'') = [''models'', ''models'', ''models'']
   \<and> length (spec_broadcast 3 (Many [PathOrId ''repo1'', PathOrId ''repo2''])) \<noteq> 3
   \<and> load_ip_adapter example_env example_pipeline (Many [PathOrId ''repo1'', PathOrId ''repo2''])
        (Single ''models'') (Many [''a.bin'', ''b.bin'', ''c.bin'']) (Some ''image_encoder'') None
       = Raises (ValueError LengthPretrained) example_pipeline"
proof -
  have w: "spec_wrap (Many [''a.bin'', ''b.bin'', ''c.bin'']) = [''a.bin'', ''b.bin'', ''c.bin'']"
    by (simp add: spec_wrap_def)
  have s: "spec_broadcast 3 (Single ''models'') = [''models'', ''models'', ''models'']"
    by (simp add: spec_broadcast_def spec_wrap_def numeral_3_eq_3)
  have p: "spec_broadcast 3 (Many [PathOrId ''repo1'', PathOrId ''repo2''])
             = [PathOrId ''repo1'', PathOrId ''repo2'']"
    by (simp add: spec_broadcast_def spec_wrap_def)
  from load_ip_adapter_broadcasting [of "Many [PathOrId ''repo1'', PathOrId ''repo2'']" "Single ''models''"
              "Many [''a.bin'', ''b.bin'', ''c.bin'']" example_env example_pipeline
              "Some ''image_encoder''" None]
  show ?thesis by (simp add: spec_broadcast_def spec_wrap_def numeral_3_eq_3)
qed

text \<open>
  Claim C10. For a weight file whose name ends with \<^verbatim>\<open>.safetensors\<close>, every state
  dict that is built has exactly the keys \<^verbatim>\<open>["image_proj", "ip_adapter"]\<close>, so the
  iteration never raises the \<^verbatim>\<open>ValueError\<close> of line 191; and the entries of the
  file whose key starts with neither prefix do not contribute: reading the file without
  them builds the same state dict.
\<close>

theorem safetensors_required_keys:
  assumes "endswith weight_name ''.safetensors''"
  shows "(\<forall>sd. fetch_state_dict E (PathOrId p) weight_name subfolder = Inr sd \<longrightarrow>
               keys sd = [''image_proj'', ''ip_adapter''])
       \<and> fst (load_one E folder low (PathOrId p, weight_name, subfolder) self sds)
            \<noteq> Some (ValueError MissingRequiredKeys)
       \<and> read_safetensors
            (filter (\<lambda>(k, t). startswith k ''image_proj.'' \<or> startswith k ''ip_adapter.'') f)
          = read_safetensors f"
proof -
  have k: "\<And>sd. fetch_state_dict E (PathOrId p) weight_name subfolder = Inr sd \<Longrightarrow>
               keys sd = [''image_proj'', ''ip_adapter'']"
    using assms
    by (auto simp: fetch_state_dict_def keys_read_safetensors split: sum.splits)
  have "fst (load_one E folder low (PathOrId p, weight_name, subfolder) self sds)
            \<noteq> Some (ValueError MissingRequiredKeys)"
  proof (cases "fetch_state_dict E (PathOrId p) weight_name subfolder")
    case (Inl e)
    then have "\<exists>x. e = External x"
      by (auto simp: fetch_state_dict_def split: sum.splits if_splits)
    with Inl show ?thesis by (auto simp: load_one_def)
  next
    case (Inr sd)
    from load_one_good_keys[OF Inr k[OF Inr]] show ?thesis by simp
  qed
  with k show ?thesis
    by (simp add: read_safetensors_def read_safetensors_keys_filter)
qed

theorem safetensors_required_keys_witness:
  "endswith ''ip-adapter_sd15.safetensors'' ''.safetensors''
   \<and> fetch_state_dict example_env (PathOrId ''h94/IP-Adapter'') ''ip-adapter_sd15.safetensors''
        ''models'' =
       Inr [(''image_proj'', [(''proj.weight'', Tensor 0)]),
            (''ip_adapter'', [(''1.to_k_ip.weight'', Tensor 1)])]
   \<and> keys [(''image_proj'', [(''proj.weight'', Tensor 0)]),
            (''ip_adapter'', [(''1.to_k_ip.weight'', Tensor 1)])] = [''image_proj'', ''ip_adapter'']
   \<and> fst (load_one example_env (Some ''image_encoder'') True
        (PathOrId ''h94/IP-Adapter'', ''ip-adapter_sd15.safetensors'', ''models'')
        example_pipeline []) \<noteq> Some (ValueError MissingRequiredKeys)"
proof -
  have e: "endswith ''ip-adapter_sd15.safetensors'' ''.safetensors''"
    by (simp add: endswith_def)
  have f: "fetch_state_dict example_env (PathOrId ''h94/IP-Adapter'')
             ''ip-adapter_sd15.safetensors'' ''models'' =
           Inr [(''image_proj'', [(''proj.weight'', Tensor 0)]),
                (''ip_adapter'', [(''1.to_k_ip.weight'', Tensor 1)])]"
    by (simp add: fetch_state_dict_def example_env_def endswith_def read_safetensors_def
          startswith_def setitem_inner_def replace.simps)
  from safetensors_required_keys [OF e, of example_env "''h94/IP-Adapter''" "''models''" "Some ''image_encoder''" True
              example_pipeline "[]"] e f
  show ?thesis by simp
qed

subsection \<open>\<^verbatim>\<open>set_ip_adapter_scale\<close>\<close>

text \<open>
  Claim C9. Let the scale be a non-list value \<open>s\<close>, let \<open>p1\<close> be the first IP-Adapter
  processor of the UNet, with a scale list of length \<open>k\<close>, and let \<open>p2\<close> be the first
  IP-Adapter processor after it whose scale list has another length. Then the call raises
  \<^verbatim>\<open>ValueError\<close>, and it leaves \<open>p1\<close> and every IP-Adapter processor between
  \<open>p1\<close> and \<open>p2\<close> with the scale \<open>[s] * k\<close>, while \<open>p2\<close> and the processors
  after it keep theirs: the update is not atomic. On the example pipeline the UNet after
  the failed call differs from the UNet before it.
\<close>

theorem set_ip_adapter_scale_not_atomic:
  assumes unet: "get_unet self = Inr (name, UNetObj u)"
      and procs: "attn_processors u = pre @ (n1, p1) # mid @ (n2, p2) # post"
      and pre: "\<forall>(n, p) \<in> set pre. ip_scale p = None"
      and p1: "ip_scale p1 = Some old1"
      and mid: "\<forall>(n, p) \<in> set mid. \<forall>old. ip_scale p = Some old \<longrightarrow> length old = length old1"
      and p2: "ip_scale p2 = Some old2"
      and ne: "length old2 \<noteq> length old1"
  shows "set_ip_adapter_scale self (Scalar s) =
           Raises (ValueError (ScaleLength (length old2) (length old1)))
             (setattr name
                (UNetObj (u\<lparr>attn_processors :=
                   pre @ (n1, assign_scale (replicate (length old1) s) p1)
                     # map (\<lambda>(n, p). (n, assign_scale (replicate (length old1) s) p)) mid
                     @ (n2, p2) # post\<rparr>)) self)"
  using set_scale_loop_raises[OF pre p1 mid p2 ne, of n1 n2 post s]
  by (simp add: set_ip_adapter_scale_def unet procs)

theorem set_ip_adapter_scale_not_atomic_witness:
  "set_ip_adapter_scale example_pipeline (Scalar (1 / 2)) =
     Raises (ValueError (ScaleLength 2 1))
       (setattr ''unet''
          (UNetObj (example_unet\<lparr>attn_processors :=
             [(''down.attn1'', OtherProcessor ''AttnProcessor''),
              (''down.attn2'', IPAdapterAttnProcessor [1 / 2]),
              (''mid.attn1'', OtherProcessor ''AttnProcessor''),
              (''mid.attn2'', IPAdapterAttnProcessor2_0 [1 / 2]),
              (''up.attn2'', IPAdapterAttnProcessor [1, 1]),
              (''up.attn3'', IPAdapterAttnProcessor [1])]\<rparr>)) example_pipeline)
   \<and> attrs (final_state (set_ip_adapter_scale example_pipeline (Scalar (1 / 2)))) ''unet''
       \<noteq> attrs example_pipeline ''unet''"
proof -
  have g: "get_unet example_pipeline = Inr (''unet'', UNetObj example_unet)"
    by (simp add: get_unet_def hasattr_def example_pipeline_def)
  have a: "attn_processors example_unet =
             [(''down.attn1'', OtherProcessor ''AttnProcessor'')]
             @ (''down.attn2'', IPAdapterAttnProcessor [1])
             # [(''mid.attn1'', OtherProcessor ''AttnProcessor''),
                (''mid.attn2'', IPAdapterAttnProcessor2_0 [1])]
             @ (''up.attn2'', IPAdapterAttnProcessor [1, 1])
             # [(''up.attn3'', IPAdapterAttnProcessor [1])]"
    by (simp add: example_unet_def)
  have pre: "\<forall>(n, p) \<in> set [(''down.attn1'', OtherProcessor ''AttnProcessor'' :: real attn_processor)].
               ip_scale p = None"
    by simp
  have p1: "ip_scale (IPAdapterAttnProcessor [1::real]) = Some [1]" by simp
  have mid: "\<forall>(n, p) \<in> set [(''mid.attn1'', OtherProcessor ''AttnProcessor''),
                                (''mid.attn2'', IPAdapterAttnProcessor2_0 [1::real])].
               \<forall>old. ip_scale p = Some old \<longrightarrow> length old = length [1::real]"
    by simp
  have p2: "ip_scale (IPAdapterAttnProcessor [1::real, 1]) = Some [1, 1]" by simp
  have ne: "length [1::real, 1] \<noteq> length [1::real]" by simp
  have r: "set_ip_adapter_scale example_pipeline (Scalar (1 / 2)) =
     Raises (ValueError (ScaleLength 2 1))
       (setattr ''unet''
          (UNetObj (example_unet\<lparr>attn_processors :=
             [(''down.attn1'', OtherProcessor ''AttnProcessor''),
              (''down.attn2'', IPAdapterAttnProcessor [1 / 2]),
              (''mid.attn1'', OtherProcessor ''AttnProcessor''),
              (''mid.attn2'', IPAdapterAttnProcessor2_0 [1 / 2]),
              (''up.attn2'', IPAdapterAttnProcessor [1, 1]),
              (''up.attn3'', IPAdapterAttnProcessor [1])]\<rparr>)) example_pipeline)"
    using set_ip_adapter_scale_not_atomic [OF g a pre p1 mid p2 ne, of "1 / 2"] by simp
  show ?thesis
    unfolding r by (simp add: setattr_def example_pipeline_def example_unet_def)
qed

end
